theory Spec2Isabelle
  imports Complex_Main
begin

section \<open>The optimizer of HomebrewNLP-MTF: gradient traversal, loss blending, updates\<close>

text \<open>
  A shallow embedding of \<^verbatim>\<open>src/optimizer/__init__.py\<close>. Tensors are flattened to
  lists of reals, tensor arithmetic is exact real arithmetic, and every helper that is
  imported from a module outside the embedded file (the optimizer table, the gradient rule
  of an operation, \<^verbatim>\<open>feature_dims_used\<close>, \<^verbatim>\<open>get_fan_in\<close>) is a parameter or a
  field of the record it is computed from.
\<close>

subsection \<open>Scalars of the graph\<close>

text \<open>
  \<^verbatim>\<open>to_fp32(greater_equal(a, b))\<close> and \<^verbatim>\<open>cast(equal(a, b), dtype)\<close>: a comparison
  turned into the number 1.0 or 0.0.
\<close>

definition to_fp32 :: "bool \<Rightarrow> real" where
  "to_fp32 b = (if b then 1 else 0)"

text \<open>
  \<^verbatim>\<open>reciprocal\<close> of a float tensor. At zero the float result is infinite, and every
  product it enters is infinite or not a number; the embedding has no real value there.
\<close>

definition reciprocal :: "real \<Rightarrow> real option" where
  "reciprocal x = (if x = 0 then None else Some (1 / x))"

subsection \<open>Loss scalarizer (lines 116-134)\<close>

definition min_gamma :: real where
  "min_gamma = 1 / 1000"

text \<open>
  The three assignments to \<^verbatim>\<open>gamma\<close>, in the order of the source. The arguments are
  the reduced accumulators \<^verbatim>\<open>v1v1\<close>, \<^verbatim>\<open>v1v2\<close>, \<^verbatim>\<open>v2v2\<close>. The denominator is
  written as the source writes it: \<^verbatim>\<open>add(v1v1, v2v2) - multiply(-2, v1v2)\<close>.
\<close>

definition mgda_gamma :: "real \<Rightarrow> real \<Rightarrow> real \<Rightarrow> real option" where
  "mgda_gamma v1v1 v1v2 v2v2 =
     (let gamma0 = (1 - min_gamma) * to_fp32 (v1v2 \<ge> v1v1);
          gamma1 = gamma0 + min_gamma * to_fp32 (v1v2 \<ge> v2v2) * to_fp32 (gamma0 = 0)
      in case reciprocal ((v1v1 + v2v2) - (- 2) * v1v2) of
           None \<Rightarrow> None
         | Some r \<Rightarrow> Some (gamma1 + (- 1) * to_fp32 (gamma1 = 0) * (v1v2 + - v2v2) * r))"

text \<open>
  The loss that is traversed at index \<^verbatim>\<open>loss_idx\<close>: under \<^verbatim>\<open>mgda\<close> the loss at
  index 2 is replaced by the blend of the first two; every other index keeps its own loss.
  A list shorter than the index has no such iteration.
\<close>

definition blend :: "real \<Rightarrow> real \<Rightarrow> real \<Rightarrow> real" where
  "blend gamma loss1 loss2 = loss1 * gamma + loss2 * (1 - gamma)"

definition traversed_loss :: "bool \<Rightarrow> real list \<Rightarrow> real \<Rightarrow> real \<Rightarrow> real \<Rightarrow> nat \<Rightarrow> real option" where
  "traversed_loss mgda loss_list v1v1 v1v2 v2v2 loss_idx =
     (if loss_idx \<ge> length loss_list then None
      else if mgda \<and> loss_idx = 2 then
        map_option (\<lambda>gamma. blend gamma (loss_list ! 0) (loss_list ! 1)) (mgda_gamma v1v1 v1v2 v2v2)
      else Some (loss_list ! loss_idx))"

text \<open>
  The blend coefficient as the specification words it: the first two cases as thresholds,
  the third the quotient over \<open>g1\<cdot>g1 + g2\<cdot>g2 - 2 g1\<cdot>g2\<close>, clamped to \<open>[\<epsilon>, 1 - \<epsilon>]\<close>.
\<close>

definition clamp :: "real \<Rightarrow> real \<Rightarrow> real \<Rightarrow> real" where
  "clamp x lo hi = max lo (min hi x)"

definition gamma_spec :: "real \<Rightarrow> real \<Rightarrow> real \<Rightarrow> real" where
  "gamma_spec g1g1 g1g2 g2g2 =
     (if g1g2 \<ge> g1g1 then 1 - min_gamma
      else if g1g2 \<ge> g2g2 then min_gamma
      else clamp ((g2g2 - g1g2) / (g1g1 + g2g2 - 2 * g1g2)) min_gamma (1 - min_gamma))"

subsection \<open>Step indicator and momentum coefficients (lines 98-104)\<close>






subsection \<open>Tensors, variables and parameters\<close>

text \<open>
  A tensor is its flattened list of entries. \<^verbatim>\<open>add\<close>, subtraction and the product
  with a scalar act entrywise on tensors of one shape.
\<close>

type_synonym tensor = "real list"

definition add :: "tensor \<Rightarrow> tensor \<Rightarrow> tensor" where
  "add xs ys = map2 (+) xs ys"

definition sub :: "tensor \<Rightarrow> tensor \<Rightarrow> tensor" where
  "sub xs ys = map2 (-) xs ys"

definition multiply :: "real \<Rightarrow> tensor \<Rightarrow> tensor" where
  "multiply c xs = map (\<lambda>x. c * x) xs"

definition zeros_like :: "tensor \<Rightarrow> tensor" where
  "zeros_like xs = map (\<lambda>_. 0) xs"

text \<open>
  A variable: its display name, the sizes of \<^verbatim>\<open>var.shape.dims\<close>, its stored value, and
  the results of the two helpers of \<^verbatim>\<open>utils_mtf\<close> on it:
  \<^verbatim>\<open>feature_dims_used(params, var)\<close> and the sizes of \<^verbatim>\<open>get_fan_in(params, var)\<close>.
\<close>

record variable =
  var_name :: string
  var_dims :: "nat list"
  var_value :: tensor
  features_used :: bool
  fan_in :: "nat list"

text \<open>The fields of \<^verbatim>\<open>ModelParameter\<close> that \<^verbatim>\<open>update\<close> reads.\<close>

record params =
  optimizer :: string
  rezero_lr_multiplier :: real
  n_feature_dims :: nat
  weight_decay :: real
  weight_standardisation :: bool
  scale_by_depth :: bool
  n_blocks :: nat

text \<open>
  The fields of \<^verbatim>\<open>OptimizerCtx\<close> that \<^verbatim>\<open>gradient_accumulation\<close> and
  \<^verbatim>\<open>update\<close> use. The assignments appended to \<^verbatim>\<open>update_ops\<close> are carried out
  on the record: \<open>grad_buffer\<close> and \<open>var\<close> hold the buffer and the variable after the
  step. \<open>opt_state\<close> is the persistent state the optimizers of the chain own.
\<close>

record 'st ctx =
  grad :: tensor
  grad_buffer :: "tensor option"
  var :: variable
  learning_rate :: real
  opt_state :: 'st

datatype error = KeyError string | NoBuffer | IndexError

subsection \<open>Strings\<close>

text \<open>\<^verbatim>\<open>needle in s\<close> on strings: \<open>needle\<close> occurs in \<open>s\<close> as a contiguous run.\<close>

fun py_in :: "string \<Rightarrow> string \<Rightarrow> bool" where
  "py_in needle [] = (needle = [])"
| "py_in needle (c # cs) = (take (length needle) (c # cs) = needle \<or> py_in needle cs)"

text \<open>\<^verbatim>\<open>s.split(sep)\<close> for a separator of one character: never an empty list.\<close>

fun split_char :: "char \<Rightarrow> string \<Rightarrow> string list" where
  "split_char sep [] = [[]]"
| "split_char sep (c # cs) =
     (if c = sep then [] # split_char sep cs
      else (case split_char sep cs of
              [] \<Rightarrow> [[c]]
            | w # ws \<Rightarrow> (c # w) # ws))"

subsection \<open>Gradient accumulation (lines 27-28)\<close>

text \<open>
  \<^verbatim>\<open>assign_add(ctx.grad_buffer, add(ctx.grad, identity(ctx.grad_buffer)))\<close>: the
  buffer is increased by the sum of the gradient and the buffer itself. Without a buffer
  the call has nothing to assign to.
\<close>

definition gradient_accumulation :: "'st ctx \<Rightarrow> error + 'st ctx" where
  "gradient_accumulation c =
     (case grad_buffer c of
        None \<Rightarrow> Inl NoBuffer
      | Some b \<Rightarrow> Inr (c\<lparr>grad_buffer := Some (add b (add (grad c) b))\<rparr>))"

subsection \<open>The update (lines 31-74)\<close>

text \<open>Lines 37-39: with a buffer, the gradient is replaced by the buffer, which is zeroed.\<close>

definition read_buffer :: "'st ctx \<Rightarrow> 'st ctx" where
  "read_buffer c =
     (case grad_buffer c of
        None \<Rightarrow> c
      | Some b \<Rightarrow> c\<lparr>grad := b, grad_buffer := Some (zeros_like b)\<rparr>)"

text \<open>
  Lines 41-43. The table \<^verbatim>\<open>OPTIMIZERS\<close> is a parameter: a name is mapped to a function
  of the context and the string arguments that returns the optimizer's new state and the
  new gradient. A name outside the table raises \<^verbatim>\<open>KeyError\<close>.
\<close>

type_synonym 'st optimizers = "string \<Rightarrow> ('st ctx \<Rightarrow> string list \<Rightarrow> 'st \<times> tensor) option"

fun run_chain :: "'st optimizers \<Rightarrow> string list \<Rightarrow> 'st ctx \<Rightarrow> error + 'st ctx" where
  "run_chain OPTIMIZERS [] c = Inr c"
| "run_chain OPTIMIZERS (tok # toks) c =
     (case split_char CHR '':'' tok of
        [] \<Rightarrow> Inl (KeyError [])
      | opt # args \<Rightarrow>
          (case OPTIMIZERS opt of
             None \<Rightarrow> Inl (KeyError opt)
           | Some f \<Rightarrow>
               (case f c args of
                  (st, g) \<Rightarrow> run_chain OPTIMIZERS toks (c\<lparr>grad := g, opt_state := st\<rparr>))))"

text \<open>Lines 45-46.\<close>

definition rezero_scale :: "params \<Rightarrow> 'st ctx \<Rightarrow> 'st ctx" where
  "rezero_scale p c =
     (if py_in ''rezero'' (var_name (var c))
      then c\<lparr>grad := multiply (rezero_lr_multiplier p) (grad c)\<rparr>
      else c)"

text \<open>Lines 48-54, one binding for each assignment to \<^verbatim>\<open>large_tensor\<close>.\<close>

definition large_tensor :: "params \<Rightarrow> variable \<Rightarrow> bool" where
  "large_tensor p v =
     (let n = var_name v;
          l1 = (features_used v \<and> length (var_dims v) > n_feature_dims p);
          l2 = (l1 \<or> (\<not> features_used v \<and> length (var_dims v) \<ge> 2));
          l3 = (l2 \<and> prod_list (var_dims v) > 1);
          l4 = (l3 \<and> \<not> py_in ''embed'' n);
          l5 = (l4 \<and> (\<not> py_in ''input'' n \<or> py_in ''lang_in'' n \<or> py_in ''vid_in'' n));
          l6 = (l5 \<and> (\<not> py_in ''output'' n \<or> py_in ''lang_out'' n \<or> py_in ''vid_out'' n))
      in l6)"

text \<open>Lines 56-59: the entrywise product of the decay, the stored value and the learning rate.\<close>

definition decay :: "params \<Rightarrow> 'st ctx \<Rightarrow> 'st ctx" where
  "decay p c =
     (if large_tensor p (var c) \<and> weight_decay p > 0
      then c\<lparr>grad := add (grad c)
                 (map (\<lambda>x. weight_decay p * x * learning_rate c) (var_value (var c)))\<rparr>
      else c)"

text \<open>
  Lines 66-71: the target variance of a variable. The sizes are positive for every tensor
  the standardisation reaches (its size is above 1 and its fan-in dimensions are among its
  dimensions), so no division by zero is written out.
\<close>

definition target_variance :: "params \<Rightarrow> variable \<Rightarrow> real" where
  "target_variance p v =
     (let fan_in_size = prod_list (fan_in v);
          size = prod_list (var_dims v);
          max_fan = max fan_in_size (size div fan_in_size);
          variance = (1 - 1 / real max_fan) / (real size)\<^sup>2 + 1 / real max_fan
                       - 2 / real size + 1 / real max_fan
      in if scale_by_depth p then variance * real (n_blocks p) else variance)"

text \<open>
  Lines 65 and 72-73: the entries of \<open>val\<close>, each multiplied by \<^verbatim>\<open>rsqrt_eps\<close> of the
  mean of the squares and by the root of the target variance. \<^verbatim>\<open>rsqrt_eps\<close> is a
  helper outside the embedded file, hence a parameter.
\<close>

definition mean_square :: "variable \<Rightarrow> tensor \<Rightarrow> real" where
  "mean_square v val = sum_list (map (\<lambda>x. x * x * (1 / real (prod_list (var_dims v)))) val)"

definition standardise :: "(real \<Rightarrow> real) \<Rightarrow> params \<Rightarrow> variable \<Rightarrow> tensor \<Rightarrow> tensor" where
  "standardise rsqrt_eps p v val =
     map (\<lambda>x. x * rsqrt_eps (mean_square v val) * sqrt (target_variance p v)) val"

text \<open>Lines 61-74: the assignment to the variable.\<close>

definition assign_var :: "(real \<Rightarrow> real) \<Rightarrow> params \<Rightarrow> 'st ctx \<Rightarrow> 'st ctx" where
  "assign_var rsqrt_eps p c =
     (let v = var c in
      if \<not> large_tensor p v \<or> \<not> weight_standardisation p
      then c\<lparr>var := v\<lparr>var_value := sub (var_value v) (grad c)\<rparr>\<rparr>
      else c\<lparr>var := v\<lparr>var_value := standardise rsqrt_eps p v (sub (var_value v) (grad c))\<rparr>\<rparr>)"

definition update :: "'st optimizers \<Rightarrow> (real \<Rightarrow> real) \<Rightarrow> params \<Rightarrow> 'st ctx \<Rightarrow> error + 'st ctx" where
  "update OPTIMIZERS rsqrt_eps p c =
     (case run_chain OPTIMIZERS (split_char CHR ''-'' (optimizer p)) (read_buffer c) of
        Inl e \<Rightarrow> Inl e
      | Inr c2 \<Rightarrow> Inr (assign_var rsqrt_eps p (decay p (rezero_scale p c2))))"

subsection \<open>Dispatch on the mode name (lines 169-173)\<close>

text \<open>
  \<^verbatim>\<open>variable(params, ctx.var, "grad_accumulation", ctx.var.shape)\<close>: the stored buffer
  of the variable, or a fresh one of zeros in the variable's shape.
\<close>

definition buffer_variable :: "variable \<Rightarrow> tensor option \<Rightarrow> tensor" where
  "buffer_variable v stored =
     (case stored of
        None \<Rightarrow> replicate (prod_list (var_dims v)) 0
      | Some b \<Rightarrow> b)"

datatype step_fn = GradientAccumulation | Update

definition select_fn :: "string \<Rightarrow> step_fn" where
  "select_fn fn = (if fn = ''accumulate'' then GradientAccumulation else Update)"

text \<open>
  The body of the loop over \<^verbatim>\<open>gradients(ctx)\<close> for one variable. \<open>known\<close> is the
  result of the lookup of the buffer's full name in \<^verbatim>\<open>name_to_variable\<close>, \<open>stored\<close>
  the buffer the variable owns, if one was allocated.
\<close>

definition run_fn ::
  "'st optimizers \<Rightarrow> (real \<Rightarrow> real) \<Rightarrow> params \<Rightarrow> string \<Rightarrow> bool \<Rightarrow> tensor option \<Rightarrow> 'st ctx
     \<Rightarrow> error + 'st ctx" where
  "run_fn OPTIMIZERS rsqrt_eps p fn known stored c =
     (let c1 = (if fn = ''accumulate'' \<or> known
                then c\<lparr>grad_buffer := Some (buffer_variable (var c) stored)\<rparr>
                else c)
      in case select_fn fn of
           GradientAccumulation \<Rightarrow> gradient_accumulation c1
         | Update \<Rightarrow> update OPTIMIZERS rsqrt_eps p c1)"

text \<open>
  A run of steps on one variable with the same gradient \<open>g\<close> at every step: the mode
  name of each step is given. \<open>stored\<close> is the buffer the variable owns between the steps;
  a step that attaches the buffer to its context leaves its new content there, a step that
  does not attach it leaves it as it was. The first error ends the run.
\<close>

fun run_steps ::
  "'st optimizers \<Rightarrow> (real \<Rightarrow> real) \<Rightarrow> params \<Rightarrow> bool \<Rightarrow> tensor \<Rightarrow> string list
     \<Rightarrow> tensor option \<Rightarrow> 'st ctx \<Rightarrow> error + tensor option \<times> 'st ctx" where
  "run_steps OPTIMIZERS rsqrt_eps p known g [] stored c = Inr (stored, c)"
| "run_steps OPTIMIZERS rsqrt_eps p known g (fn # fns) stored c =
     (case run_fn OPTIMIZERS rsqrt_eps p fn known stored (c\<lparr>grad := g, grad_buffer := None\<rparr>) of
        Inl e \<Rightarrow> Inl e
      | Inr c' \<Rightarrow>
          run_steps OPTIMIZERS rsqrt_eps p known g fns
            (case grad_buffer c' of None \<Rightarrow> stored | Some b \<Rightarrow> Some b) c')"

text \<open>
  Modelled from the spec: the optimizer table is outside the embedded file. Scenario A of
  the specification (\<open>v = [1.0, 1.0]\<close>, gradient \<open>[0.1, 0.1]\<close>, chain \<^verbatim>\<open>sgd\<close>, result
  \<open>[0.9, 0.9]\<close>) fixes \<^verbatim>\<open>sgd\<close> as the optimizer that returns the gradient it is given.
\<close>

definition sgd_only :: "unit optimizers" where
  "sgd_only opt = (if opt = ''sgd'' then Some (\<lambda>c args. (opt_state c, grad c)) else None)"

subsection \<open>Reachability (lines 136-144)\<close>

text \<open>
  An operation of the graph: its input and output tensors (a tensor is its number in the
  graph) and whether it has a gradient rule.
\<close>

record operation =
  inputs :: "nat list"
  outputs :: "nat list"
  has_gradient :: bool

text \<open>
  \<^verbatim>\<open>xs = [x.outputs[0] for x in trainable_variables]\<close>; indexing an empty list of
  outputs raises.
\<close>

fun trainable_outputs :: "operation list \<Rightarrow> error + nat list" where
  "trainable_outputs [] = Inr []"
| "trainable_outputs (x # rest) =
     (case outputs x of
        [] \<Rightarrow> Inl IndexError
      | t # _ \<Rightarrow> (case trainable_outputs rest of Inl e \<Rightarrow> Inl e | Inr ts \<Rightarrow> Inr (t # ts)))"

text \<open>The body of the loop of lines 142-144, and the loop from \<^verbatim>\<open>downstream = set(xs)\<close>.\<close>

definition downstream_step :: "nat set \<Rightarrow> operation \<Rightarrow> nat set" where
  "downstream_step D op =
     (if has_gradient op \<and> set (inputs op) \<inter> D \<noteq> {} then D \<union> set (outputs op) else D)"

definition downstream :: "operation list \<Rightarrow> nat list \<Rightarrow> nat set" where
  "downstream operations xs = foldl downstream_step (set xs) operations"

text \<open>
  The loop over the loss heads computes the set anew in each iteration, from the operations
  of the graph of that loss: one set for each head, in the order of \<^verbatim>\<open>loss_list\<close>.
\<close>

definition downstream_sets :: "operation list list \<Rightarrow> nat list \<Rightarrow> nat set list" where
  "downstream_sets graphs xs = map (\<lambda>operations. downstream operations xs) graphs"

subsection \<open>Collecting the gradients of the outputs (lines 146-161)\<close>

text \<open>
  Of a gradient tensor the loop uses its identity and the number of inputs of the
  operation that produced it (\<^verbatim>\<open>len(grad_list[2].operation.inputs)\<close>).
\<close>

record gradient =
  grad_id :: nat
  n_inputs :: nat

text \<open>\<^verbatim>\<open>tensor_to_gradient\<close>: a tensor is mapped to a list of two counters and a gradient.\<close>

type_synonym gradient_map = "nat \<rightharpoonup> nat \<times> nat \<times> gradient"

text \<open>Line 146: \<^verbatim>\<open>{loss: [0, 0, loss_grad]}\<close>.\<close>

definition seed_map :: "nat \<Rightarrow> gradient \<Rightarrow> gradient_map" where
  "seed_map loss loss_grad = [loss \<mapsto> (0, 0, loss_grad)]"

text \<open>
  Lines 152-161, for one output: an absent entry gives \<^verbatim>\<open>None\<close>; a present one gives
  its gradient, its first counter is increased in place, and the entry is deleted if the
  counter then equals the number of inputs of the gradient's operation.
\<close>

definition visit_output :: "nat \<Rightarrow> gradient_map \<Rightarrow> gradient option \<times> gradient_map" where
  "visit_output out m =
     (case m out of
        None \<Rightarrow> (None, m)
      | Some (c0, c1, g) \<Rightarrow>
          (Some g, if c0 + 1 = n_inputs g then m(out := None) else m(out \<mapsto> (c0 + 1, c1, g))))"

fun collect_outputs :: "nat list \<Rightarrow> gradient_map \<Rightarrow> gradient option list \<times> gradient_map" where
  "collect_outputs [] m = ([], m)"
| "collect_outputs (out # outs) m =
     (case visit_output out m of
        (g, m1) \<Rightarrow> (case collect_outputs outs m1 of (gs, m2) \<Rightarrow> (g # gs, m2)))"

subsection \<open>Data of the scenarios\<close>

text \<open>
  Scenario B of the specification: one variable \<open>v = [1.0]\<close>, the chain \<^verbatim>\<open>sgd\<close>, no decay,
  no standardisation, no buffer allocated yet.
\<close>

definition scenario_params :: params where
  "scenario_params =
     \<lparr>optimizer = ''sgd'', rezero_lr_multiplier = 1, n_feature_dims = 1, weight_decay = 0,
      weight_standardisation = False, scale_by_depth = False, n_blocks = 1\<rparr>"

definition scenario_var :: variable where
  "scenario_var =
     \<lparr>var_name = ''v'', var_dims = [1], var_value = [1], features_used = False, fan_in = [1]\<rparr>"

definition scenario_ctx :: "unit ctx" where
  "scenario_ctx =
     \<lparr>grad = [], grad_buffer = None, var = scenario_var, learning_rate = 1, opt_state = ()\<rparr>"

text \<open>
  A two by two matrix of ones under the name \<open>n\<close>, with a zero gradient, and parameters
  with a weight decay of one tenth.
\<close>

definition matrix_ctx :: "string \<Rightarrow> unit ctx" where
  "matrix_ctx n =
     \<lparr>grad = [0, 0, 0, 0], grad_buffer = None,
      var = \<lparr>var_name = n, var_dims = [2, 2], var_value = [1, 1, 1, 1], features_used = False,
             fan_in = [2]\<rparr>,
      learning_rate = 1, opt_state = ()\<rparr>"

definition decay_params :: params where
  "decay_params = scenario_params\<lparr>weight_decay := 1 / 10\<rparr>"



section \<open>Properties\<close>

subsection \<open>Loss scalarizer\<close>

lemmas gamma_defs = mgda_gamma_def reciprocal_def to_fp32_def min_gamma_def Let_def

text \<open>
  The three cases of the coefficient as the source computes it, wherever the argument of
  \<^verbatim>\<open>reciprocal\<close> is not zero. The third case divides by
  \<open>v1v1 + v2v2 + 2 v1v2\<close> and is not clamped.
\<close>

lemma mgda_gamma_second:
  assumes "v1v2 < v1v1" and "v1v2 \<ge> v2v2" and "v1v1 + v2v2 + 2 * v1v2 \<noteq> 0"
  shows "mgda_gamma v1v1 v1v2 v2v2 = Some min_gamma"
  using assms by (simp add: gamma_defs)

lemma mgda_gamma_third:
  assumes "v1v2 < v1v1" and "v1v2 < v2v2" and "v1v1 + v2v2 + 2 * v1v2 \<noteq> 0"
  shows "mgda_gamma v1v1 v1v2 v2v2 = Some ((v2v2 - v1v2) / (v1v1 + v2v2 + 2 * v1v2))"
proof -
  have "- ((v1v2 - v2v2) / (v1v1 + v2v2 + 2 * v1v2)) = (v2v2 - v1v2) / (v1v1 + v2v2 + 2 * v1v2)"
    by (metis minus_diff_eq minus_divide_left)
  with assms show ?thesis by (simp add: gamma_defs)
qed

lemma traversed_loss_blend:
  assumes "mgda_gamma v1v1 v1v2 v2v2 = Some gamma" and "length loss_list \<ge> 3"
  shows "traversed_loss True loss_list v1v1 v1v2 v2v2 2
         = Some (gamma * loss_list ! 0 + (1 - gamma) * loss_list ! 1)"
  using assms by (simp add: traversed_loss_def blend_def mult.commute)

text \<open>
  C1. The claim gives the coefficient as \<open>1 - \<epsilon>\<close>, \<open>\<epsilon>\<close>, or the quotient
  \<open>(g2\<cdot>g2 - g1\<cdot>g2) / (g1\<cdot>g1 + g2\<cdot>g2 - 2 g1\<cdot>g2)\<close> clamped to \<open>[\<epsilon>, 1 - \<epsilon>]\<close>, always
  within \<open>[0, 1]\<close>. For the gradients \<open>g1 = (3, 0)\<close>, \<open>g2 = (1, 2)\<close> the products are
  9, 3 and 5: the source computes 1/10 where the claim's formula gives 1/4. For
  \<open>g1 = (1, 0)\<close>, \<open>g2 = (-1, 1)\<close> the products are 1, -1 and 2: the source computes 3,
  outside \<open>[0, 1]\<close>, where the claim's formula gives 3/5.
\<close>

theorem mgda_gamma_denominator_sign:
  "mgda_gamma 9 3 5 = Some (1 / 10) \<and> gamma_spec 9 3 5 = 1 / 4
   \<and> mgda_gamma 1 (- 1) 2 = Some 3 \<and> gamma_spec 1 (- 1) 2 = 3 / 5"
  by (simp add: gamma_defs gamma_spec_def clamp_def)




subsection \<open>Step indicator\<close>






subsection \<open>Reachability\<close>

lemma downstream_snoc: "downstream (ops @ [op]) xs = downstream_step (downstream ops xs) op"
  by (simp add: downstream_def)

lemma downstream_mem:
  "t \<in> downstream ops xs \<longleftrightarrow>
     t \<in> set xs \<or>
     (\<exists>i<length ops. t \<in> set (outputs (ops ! i)) \<and> has_gradient (ops ! i)
        \<and> set (inputs (ops ! i)) \<inter> downstream (take i ops) xs \<noteq> {})"
proof (induction ops rule: rev_induct)
  case Nil
  then show ?case by (simp add: downstream_def)
next
  case (snoc op ops)
  let ?Q = "\<lambda>os i. t \<in> set (outputs (os ! i)) \<and> has_gradient (os ! i)
        \<and> set (inputs (os ! i)) \<inter> downstream (take i os) xs \<noteq> {}"
  have old: "?Q (ops @ [op]) i \<longleftrightarrow> ?Q ops i" if "i < length ops" for i
    using that by (simp add: nth_append)
  have new: "?Q (ops @ [op]) (length ops) \<longleftrightarrow>
      t \<in> set (outputs op) \<and> has_gradient op \<and> set (inputs op) \<inter> downstream ops xs \<noteq> {}"
    by simp
  have split: "(\<exists>i<length (ops @ [op]). ?Q (ops @ [op]) i) \<longleftrightarrow>
      (\<exists>i<length ops. ?Q ops i) \<or> ?Q (ops @ [op]) (length ops)"
    (is "?L \<longleftrightarrow> ?R")
  proof
    assume ?L
    then obtain i where i: "i < length (ops @ [op])" "?Q (ops @ [op]) i" by blast
    show ?R
    proof (cases "i < length ops")
      case True
      with i old show ?thesis by blast
    next
      case False
      with i have "i = length ops" by simp
      with i show ?thesis by blast
    qed
  next
    assume ?R
    then show ?L
    proof
      assume "\<exists>i<length ops. ?Q ops i"
      then obtain i where "i < length ops" "?Q ops i" by blast
      with old have "i < length (ops @ [op])" "?Q (ops @ [op]) i" by simp_all
      then show ?L by blast
    next
      assume "?Q (ops @ [op]) (length ops)"
      moreover have "length ops < length (ops @ [op])" by simp
      ultimately show ?L by blast
    qed
  qed
  have "t \<in> downstream (ops @ [op]) xs \<longleftrightarrow>
      t \<in> downstream ops xs \<or>
      (t \<in> set (outputs op) \<and> has_gradient op \<and> set (inputs op) \<inter> downstream ops xs \<noteq> {})"
    by (auto simp: downstream_snoc downstream_step_def)
  with snoc.IH split new show ?case by blast
qed

lemma trainable_outputs_first:
  "(\<forall>x \<in> set vars. outputs x \<noteq> []) \<Longrightarrow>
   trainable_outputs vars = Inr (map (\<lambda>x. hd (outputs x)) vars)"
  by (induction vars) (auto split: list.splits)

text \<open>
  C5. The downstream set is one forward scan over the operations in their order. It starts
  from exactly the output tensors of the trainable variables; at an operation the outputs
  join the set if the operation has a gradient and one of its inputs is in the set built
  so far, and the set is unchanged otherwise. Hence a tensor is in the final set if and
  only if it is a seed or an output of an operation that has a gradient and had an input
  in the set scanned before it. One such set is computed for each loss head, from the
  operations of that head's graph. The seeds are the first outputs of the trainable
  variables.
\<close>

theorem downstream_forward_scan:
  "downstream [] xs = set xs
   \<and> downstream (ops @ [op]) xs =
       (if has_gradient op \<and> set (inputs op) \<inter> downstream ops xs \<noteq> {}
        then downstream ops xs \<union> set (outputs op) else downstream ops xs)
   \<and> (t \<in> downstream ops xs \<longleftrightarrow>
        t \<in> set xs \<or>
        (\<exists>i<length ops. t \<in> set (outputs (ops ! i)) \<and> has_gradient (ops ! i)
           \<and> set (inputs (ops ! i)) \<inter> downstream (take i ops) xs \<noteq> {}))
   \<and> length (downstream_sets graphs xs) = length graphs
   \<and> (\<forall>k<length graphs. downstream_sets graphs xs ! k = downstream (graphs ! k) xs)
   \<and> ((\<forall>x \<in> set vars. outputs x \<noteq> []) \<longrightarrow>
        trainable_outputs vars = Inr (map (\<lambda>x. hd (outputs x)) vars))"
  using downstream_mem [of t ops xs] trainable_outputs_first [of vars]
  by (simp add: downstream_snoc downstream_step_def downstream_sets_def) (simp add: downstream_def)

theorem downstream_forward_scan_witness:
  "trainable_outputs [\<lparr>inputs = [], outputs = [0], has_gradient = True\<rparr>] = Inr [0]
   \<and> downstream
     [\<lparr>inputs = [0], outputs = [1], has_gradient = True\<rparr>,
      \<lparr>inputs = [1], outputs = [2], has_gradient = False\<rparr>,
      \<lparr>inputs = [5], outputs = [3], has_gradient = True\<rparr>,
      \<lparr>inputs = [4, 1], outputs = [6, 7], has_gradient = True\<rparr>] [0] = {0, 1, 6, 7}"
  using downstream_forward_scan
    [of "[0]" "[\<lparr>inputs = [0], outputs = [1], has_gradient = True\<rparr>,
      \<lparr>inputs = [1], outputs = [2], has_gradient = False\<rparr>,
      \<lparr>inputs = [5], outputs = [3], has_gradient = True\<rparr>]"
      "\<lparr>inputs = [4, 1], outputs = [6, 7], has_gradient = True\<rparr>" 0 "[]"
      "[\<lparr>inputs = [], outputs = [0], has_gradient = True\<rparr>]"]
  by (auto simp add: downstream_def downstream_step_def)

subsection \<open>Collecting the gradients of the outputs\<close>

lemma visit_output_at:
  "snd (visit_output out m) t =
     (if t = out then
        (case m t of None \<Rightarrow> None
         | Some (c0, c1, g) \<Rightarrow> if c0 + 1 = n_inputs g then None else Some (c0 + 1, c1, g))
      else m t)"
  by (simp add: visit_output_def split: option.splits prod.splits)

lemma visit_output_read: "fst (visit_output out m) = map_option (\<lambda>(c0, c1, g). g) (m out)"
  by (simp add: visit_output_def split: option.splits prod.splits)

lemma collect_outputs_read:
  "distinct outs \<Longrightarrow>
   fst (collect_outputs outs m) = map (\<lambda>out. map_option (\<lambda>(c0, c1, g). g) (m out)) outs"
proof (induction outs arbitrary: m)
  case Nil
  then show ?case by simp
next
  case (Cons out outs)
  obtain g m1 where v: "visit_output out m = (g, m1)" by (cases "visit_output out m")
  obtain gs m2 where c: "collect_outputs outs m1 = (gs, m2)" by (cases "collect_outputs outs m1")
  have g: "g = map_option (\<lambda>(c0, c1, g). g) (m out)"
    using visit_output_read [of out m] v by simp
  have same: "m1 t = m t" if "t \<in> set outs" for t
    using visit_output_at [of out m t] v that Cons.prems by auto
  have "gs = map (\<lambda>out. map_option (\<lambda>(c0, c1, g). g) (m1 out)) outs"
    using Cons.IH [of m1] Cons.prems c by simp
  also have "\<dots> = map (\<lambda>out. map_option (\<lambda>(c0, c1, g). g) (m out)) outs"
    by (rule map_cong) (simp_all add: same)
  finally show ?case using v c g by simp
qed

lemma collect_outputs_map:
  "distinct outs \<Longrightarrow>
   snd (collect_outputs outs m) t =
     (if t \<in> set outs then
        (case m t of None \<Rightarrow> None
         | Some (c0, c1, g) \<Rightarrow> if c0 + 1 = n_inputs g then None else Some (c0 + 1, c1, g))
      else m t)"
proof (induction outs arbitrary: m)
  case Nil
  then show ?case by simp
next
  case (Cons out outs)
  obtain g m1 where v: "visit_output out m = (g, m1)" by (cases "visit_output out m")
  obtain gs m2 where c: "collect_outputs outs m1 = (gs, m2)" by (cases "collect_outputs outs m1")
  have m1: "m1 u = snd (visit_output out m) u" for u using v by simp
  have "snd (collect_outputs (out # outs) m) t = snd (collect_outputs outs m1) t"
    using v c by simp
  also have "\<dots> = (if t \<in> set outs then
        (case m1 t of None \<Rightarrow> None
         | Some (c0, c1, g) \<Rightarrow> if c0 + 1 = n_inputs g then None else Some (c0 + 1, c1, g))
      else m1 t)"
    using Cons.IH [of m1] Cons.prems by simp
  finally show ?case
    using Cons.prems by (auto simp: m1 visit_output_at)
qed

text \<open>
  C6, as amended. Over the distinct outputs of an operation, the loop reads the gradient of
  exactly the outputs that have an entry in the map, so nothing is read after its removal.
  Each read increases the first counter of the entry, and the entry is removed if and only
  if the increased counter equals the number of inputs of the operation that produced the
  stored gradient tensor; otherwise the entry stays, with the increased counter. Entries
  of other tensors are untouched.
\<close>

theorem collect_outputs_reads_and_evicts:
  assumes "distinct outs"
  shows "fst (collect_outputs outs m) = map (\<lambda>out. map_option (\<lambda>(c0, c1, g). g) (m out)) outs
    \<and> (\<forall>t. snd (collect_outputs outs m) t =
          (if t \<in> set outs then
             (case m t of None \<Rightarrow> None
              | Some (c0, c1, g) \<Rightarrow> if c0 + 1 = n_inputs g then None else Some (c0 + 1, c1, g))
           else m t))"
  using assms collect_outputs_read [of outs m] collect_outputs_map [of outs m] by simp

theorem collect_outputs_reads_and_evicts_witness:
  "distinct [3::nat, 4, 5]
   \<and> fst (collect_outputs [3, 4, 5]
        [3 \<mapsto> (0, 0, \<lparr>grad_id = 8, n_inputs = 1\<rparr>), 4 \<mapsto> (0, 0, \<lparr>grad_id = 9, n_inputs = 2\<rparr>)])
       = [Some \<lparr>grad_id = 8, n_inputs = 1\<rparr>, Some \<lparr>grad_id = 9, n_inputs = 2\<rparr>, None]
   \<and> snd (collect_outputs [3, 4, 5]
        [3 \<mapsto> (0, 0, \<lparr>grad_id = 8, n_inputs = 1\<rparr>), 4 \<mapsto> (0, 0, \<lparr>grad_id = 9, n_inputs = 2\<rparr>)]) 3 = None
   \<and> snd (collect_outputs [3, 4, 5]
        [3 \<mapsto> (0, 0, \<lparr>grad_id = 8, n_inputs = 1\<rparr>), 4 \<mapsto> (0, 0, \<lparr>grad_id = 9, n_inputs = 2\<rparr>)]) 4
       = Some (1, 0, \<lparr>grad_id = 9, n_inputs = 2\<rparr>)"
  using collect_outputs_reads_and_evicts [of "[3, 4, 5]"
      "[3 \<mapsto> (0, 0, \<lparr>grad_id = 8, n_inputs = 1\<rparr>), 4 \<mapsto> (0, 0, \<lparr>grad_id = 9, n_inputs = 2\<rparr>)]"]
  by simp

text \<open>
  The entry the traversal starts from, \<^verbatim>\<open>{loss: [0, 0, loss_grad]}\<close> with the constant
  \<^verbatim>\<open>loss_grad\<close> (an operation without inputs): the operation that produces the loss
  reads it, and it is still in the map afterwards.
\<close>

theorem seed_entry_outlives_reader:
  "collect_outputs [0] (seed_map 0 \<lparr>grad_id = 1, n_inputs = 0\<rparr>)
     = ([Some \<lparr>grad_id = 1, n_inputs = 0\<rparr>], [0 \<mapsto> (1, 0, \<lparr>grad_id = 1, n_inputs = 0\<rparr>)])"
  by (simp add: seed_map_def visit_output_def)

subsection \<open>Accumulation and update\<close>

lemmas tensor_defs = add_def sub_def multiply_def zeros_like_def

lemmas step_defs = run_fn_def select_fn_def gradient_accumulation_def buffer_variable_def
  update_def read_buffer_def sgd_only_def rezero_scale_def decay_def assign_var_def large_tensor_def

lemmas scenario_defs = scenario_params_def scenario_var_def scenario_ctx_def

text \<open>
  Accumulating the same gradient \<open>g\<close> for \<open>k\<close> steps on a buffer \<open>a \<cdot> g\<close> leaves
  \<open>(2\<^sup>k (a + 1) - 1) \<cdot> g\<close>: from the zero buffer, \<open>(2\<^sup>k - 1) \<cdot> g\<close>, not \<open>k \<cdot> g\<close>.
\<close>

lemma add_buffer_twice: "add (multiply a g) (add g (multiply a g)) = multiply (2 * a + 1) g"
  by (induction g) (simp_all add: add_def multiply_def algebra_simps)

lemma accumulate_buffer:
  "\<exists>c'. run_steps OPT rs p known g (replicate k ''accumulate'') (Some (multiply a g)) c
     = Inr (Some (multiply (2 ^ k * (a + 1) - 1) g), c') \<and> var c' = var c"
proof (induction k arbitrary: a c)
  case 0
  then show ?case by simp
next
  case (Suc k)
  let ?c1 = "c\<lparr>grad := g, grad_buffer := Some (multiply (2 * a + 1) g)\<rparr>"
  have step: "run_fn OPT rs p ''accumulate'' known (Some (multiply a g)) (c\<lparr>grad := g, grad_buffer := None\<rparr>)
      = Inr ?c1"
    by (simp add: run_fn_def select_fn_def gradient_accumulation_def buffer_variable_def add_buffer_twice)
  obtain c' where c': "run_steps OPT rs p known g (replicate k ''accumulate'') (Some (multiply (2 * a + 1) g)) ?c1
     = Inr (Some (multiply (2 ^ k * ((2 * a + 1) + 1) - 1) g), c')" "var c' = var ?c1"
    using Suc.IH [of "2 * a + 1" ?c1] by blast
  have e: "2 ^ k * ((2 * a + 1) + 1) - 1 = 2 ^ Suc k * (a + 1) - 1" by (simp add: algebra_simps)
  show ?case using step c' unfolding e by simp
qed

lemma zero_buffer: "length g = prod_list (var_dims v) \<Longrightarrow> buffer_variable v None = multiply 0 g"
  by (simp add: buffer_variable_def multiply_def map_replicate_const)

text \<open>
  C2. The claim: with a window of \<open>N\<close> steps and the gradient \<open>g\<close> at each step, the apply
  step feeds \<open>N \<cdot> g\<close> to the chain and leaves a zero buffer; for \<open>N = 2\<close>, \<open>g = [0.2]\<close>,
  \<open>v = [1.0]\<close> it applies \<open>[0.4]\<close> and gives \<open>[0.6]\<close>. In the source the accumulate step
  leaves the buffer \<open>[0.2]\<close> and the variable unchanged, and the apply step replaces its
  own gradient by the buffer: it applies \<open>[0.2]\<close> and gives \<open>[0.8]\<close>, whether or not the
  lookup of the buffer's name succeeds. With \<open>N = 4\<close> the three accumulate steps leave
  \<open>[0.2]\<close>, \<open>[0.6]\<close>, \<open>[1.4]\<close>, since each adds the gradient and the buffer to the buffer,
  and the apply step applies \<open>[1.4]\<close>, not \<open>[0.8]\<close>. The buffer is zero after an apply
  step that found it.
\<close>

theorem accumulation_window_two:
  "run_steps sgd_only rs scenario_params known [1 / 5] [''accumulate''] None scenario_ctx
     = Inr (Some [1 / 5], scenario_ctx\<lparr>grad := [1 / 5], grad_buffer := Some [1 / 5]\<rparr>)
   \<and> run_steps sgd_only rs scenario_params True [1 / 5] [''accumulate'', ''update''] None scenario_ctx
     = Inr (Some [0], scenario_ctx\<lparr>grad := [1 / 5], grad_buffer := Some [0],
                                   var := scenario_var\<lparr>var_value := [4 / 5]\<rparr>\<rparr>)
   \<and> run_steps sgd_only rs scenario_params False [1 / 5] [''accumulate'', ''update''] None scenario_ctx
     = Inr (Some [1 / 5], scenario_ctx\<lparr>grad := [1 / 5], var := scenario_var\<lparr>var_value := [4 / 5]\<rparr>\<rparr>)
   \<and> run_steps sgd_only rs scenario_params True [1 / 5]
        [''accumulate'', ''accumulate'', ''accumulate'', ''update''] None scenario_ctx
     = Inr (Some [0], scenario_ctx\<lparr>grad := [7 / 5], grad_buffer := Some [0],
                                   var := scenario_var\<lparr>var_value := [- 2 / 5]\<rparr>\<rparr>)"
  by (simp add: step_defs tensor_defs scenario_defs)

lemma run_chain_keeps:
  "run_chain OPT toks c = Inr c2 \<Longrightarrow>
     var c2 = var c \<and> grad_buffer c2 = grad_buffer c \<and> learning_rate c2 = learning_rate c"
proof (induction toks arbitrary: c)
  case Nil
  then show ?case by simp
next
  case (Cons tok toks)
  then show ?case
    by (fastforce split: list.splits option.splits prod.splits)
qed



text \<open>
  C10. If the chain returns, the update returns, and the gradient it subtracts is the
  gradient of the chain, multiplied by \<^verbatim>\<open>rezero_lr_multiplier\<close> if and only if the name of
  the variable contains \<^verbatim>\<open>rezero\<close>, with the decay term added after that scaling for a
  large tensor under a positive weight decay; the new value is the old value less that
  gradient, standardised where standardisation applies.
\<close>

theorem rezero_scaling:
  assumes "run_chain OPT (split_char CHR ''-'' (optimizer p)) (read_buffer c) = Inr c2"
  shows "\<exists>c'. update OPT rs p c = Inr c'
     \<and> grad c' =
         (let g = (if py_in ''rezero'' (var_name (var c))
                   then multiply (rezero_lr_multiplier p) (grad c2) else grad c2)
          in if large_tensor p (var c) \<and> weight_decay p > 0
             then add g (map (\<lambda>x. weight_decay p * x * learning_rate c) (var_value (var c)))
             else g)
     \<and> var_value (var c') =
         (if \<not> large_tensor p (var c) \<or> \<not> weight_standardisation p
          then sub (var_value (var c)) (grad c')
          else standardise rs p (var c) (sub (var_value (var c)) (grad c')))"
proof -
  have k: "var c2 = var c" "learning_rate c2 = learning_rate c"
    using run_chain_keeps [OF assms] by (simp_all add: read_buffer_def split: option.splits)
  show ?thesis
    using assms k
    by (simp add: update_def rezero_scale_def decay_def assign_var_def Let_def)
qed

theorem rezero_scaling_witness:
  "update sgd_only (\<lambda>x. x) (scenario_params\<lparr>rezero_lr_multiplier := 1 / 2\<rparr>)
     (scenario_ctx\<lparr>grad := [1], var := scenario_var\<lparr>var_name := ''rezero_0''\<rparr>\<rparr>)
     = Inr (scenario_ctx\<lparr>grad := [1 / 2], var := scenario_var\<lparr>var_name := ''rezero_0'', var_value := [1 / 2]\<rparr>\<rparr>)
   \<and> update sgd_only (\<lambda>x. x) (scenario_params\<lparr>rezero_lr_multiplier := 1 / 2\<rparr>)
     (scenario_ctx\<lparr>grad := [1]\<rparr>)
     = Inr (scenario_ctx\<lparr>grad := [1], var := scenario_var\<lparr>var_value := [0]\<rparr>\<rparr>)"
  using rezero_scaling [of sgd_only "scenario_params\<lparr>rezero_lr_multiplier := 1 / 2\<rparr>"
      "scenario_ctx\<lparr>grad := [1], var := scenario_var\<lparr>var_name := ''rezero_0''\<rparr>\<rparr>"
      "scenario_ctx\<lparr>grad := [1], var := scenario_var\<lparr>var_name := ''rezero_0''\<rparr>\<rparr>" "\<lambda>x. x"]
  by (simp add: step_defs tensor_defs scenario_defs)

subsection \<open>Classification of a variable\<close>

text \<open>
  C3, as amended. The classification reads the shape of the variable, the result of
  \<^verbatim>\<open>feature_dims_used\<close> and the name, the name only through the substring tests of the
  source. Two variables that agree but for their names, with names on which the eight
  tests agree, are classified alike, and after the chain they receive the same gradient
  and the same new value.
\<close>

theorem classification_reads_name:
  assumes "\<forall>s \<in> set [''rezero'', ''embed'', ''input'', ''lang_in'', ''vid_in'', ''output'',
                      ''lang_out'', ''vid_out'']. py_in s n1 = py_in s n2"
  shows "large_tensor p (v\<lparr>var_name := n1\<rparr>) = large_tensor p (v\<lparr>var_name := n2\<rparr>)
    \<and> grad (assign_var rs p (decay p (rezero_scale p (c\<lparr>var := v\<lparr>var_name := n1\<rparr>\<rparr>))))
      = grad (assign_var rs p (decay p (rezero_scale p (c\<lparr>var := v\<lparr>var_name := n2\<rparr>\<rparr>))))
    \<and> var_value (var (assign_var rs p (decay p (rezero_scale p (c\<lparr>var := v\<lparr>var_name := n1\<rparr>\<rparr>)))))
      = var_value (var (assign_var rs p (decay p (rezero_scale p (c\<lparr>var := v\<lparr>var_name := n2\<rparr>\<rparr>)))))"
proof -
  have l: "large_tensor p (v\<lparr>var_name := n1\<rparr>) = large_tensor p (v\<lparr>var_name := n2\<rparr>)"
    using assms by (simp add: large_tensor_def)
  have r: "py_in ''rezero'' n1 = py_in ''rezero'' n2" using assms by simp
  have t: "target_variance p (v\<lparr>var_name := n1\<rparr>) = target_variance p (v\<lparr>var_name := n2\<rparr>)"
    by (simp add: target_variance_def)
  have s: "standardise rs p (v\<lparr>var_name := n1\<rparr>) val = standardise rs p (v\<lparr>var_name := n2\<rparr>) val" for val
    by (simp add: standardise_def mean_square_def t)
  show ?thesis
    using l r s by (simp add: assign_var_def decay_def rezero_scale_def Let_def)
qed

theorem classification_reads_name_witness:
  "large_tensor decay_params (var (matrix_ctx ''w'')) = large_tensor decay_params (var (matrix_ctx ''kernel''))
   \<and> var_value (var (assign_var (\<lambda>x. x) decay_params (decay decay_params (rezero_scale decay_params (matrix_ctx ''w'')))))
     = var_value (var (assign_var (\<lambda>x. x) decay_params (decay decay_params (rezero_scale decay_params (matrix_ctx ''kernel'')))))"
  using classification_reads_name [of "''w''" "''kernel''" decay_params "var (matrix_ctx [])" "\<lambda>x. x" "matrix_ctx []"]
  by (simp add: matrix_ctx_def)

text \<open>
  Two matrices that differ in nothing but the name: \<^verbatim>\<open>w\<close> is a large tensor and is
  decayed to \<open>0.9\<close>, \<^verbatim>\<open>embed_w\<close> is not and keeps the value \<open>1\<close>.
\<close>

theorem name_decides_classification:
  "large_tensor decay_params (var (matrix_ctx ''w''))
   \<and> \<not> large_tensor decay_params (var (matrix_ctx ''embed_w''))
   \<and> update sgd_only (\<lambda>x. x) decay_params (matrix_ctx ''w'')
       = Inr ((matrix_ctx ''w'')\<lparr>grad := [1 / 10, 1 / 10, 1 / 10, 1 / 10],
           var := (var (matrix_ctx ''w''))\<lparr>var_value := [9 / 10, 9 / 10, 9 / 10, 9 / 10]\<rparr>\<rparr>)
   \<and> update sgd_only (\<lambda>x. x) decay_params (matrix_ctx ''embed_w'')
       = Inr ((matrix_ctx ''embed_w'')\<lparr>var := (var (matrix_ctx ''embed_w''))\<lparr>var_value := [1, 1, 1, 1]\<rparr>\<rparr>)"
  by (simp add: step_defs tensor_defs scenario_defs matrix_ctx_def decay_params_def)

subsection \<open>Weight standardisation\<close>







end
